theory Spec2Isabelle
  imports Complex_Main
begin

section \<open>Python strings and dictionaries\<close>

text \<open>
  A Python \<open>str\<close> is modelled as a \<open>string\<close>; one \<open>char\<close> stands for one character
  of the Python string, so that lengths and slice offsets count what Python counts.
  Slicing follows Python: a negative offset counts from the end, and every offset is
  clamped to the string, so a slice never fails.
\<close>

definition clamp_index :: "int \<Rightarrow> int \<Rightarrow> int" where
  "clamp_index n i = (if i < 0 then max (i + n) 0 else min i n)"

definition py_slice :: "string \<Rightarrow> int \<Rightarrow> int \<Rightarrow> string" where
  \<comment> \<open>\<^verbatim>\<open>s[a:b]\<close>\<close>
  "py_slice s a b =
     (let n = int (length s); lo = clamp_index n a; hi = clamp_index n b
      in take (nat (hi - lo)) (drop (nat lo) s))"

definition py_slice_from :: "string \<Rightarrow> int \<Rightarrow> string" where
  \<comment> \<open>\<^verbatim>\<open>s[a:]\<close>\<close>
  "py_slice_from s a = drop (nat (clamp_index (int (length s)) a)) s"

fun replace_from :: "string \<Rightarrow> string \<Rightarrow> nat \<Rightarrow> string \<Rightarrow> string" where
  "replace_from old new k [] = []"
| "replace_from old new (Suc k) (c # cs) = replace_from old new k cs"
| "replace_from old new 0 (c # cs) =
     (if take (length old) (c # cs) = old
      then new @ replace_from old new (length old - 1) cs
      else c # replace_from old new 0 cs)"

definition str_replace :: "string \<Rightarrow> string \<Rightarrow> string \<Rightarrow> string" where
  \<comment> \<open>\<^verbatim>\<open>s.replace(old, new)\<close>: every non-overlapping occurrence, from the left\<close>
  "str_replace s old new =
     (if old = [] then new @ concat (map (\<lambda>c. c # new) s) else replace_from old new 0 s)"

definition digit_char :: "nat \<Rightarrow> char" where
  "digit_char d = ''0123456789'' ! d"

fun str_nat :: "nat \<Rightarrow> string" where
  "str_nat n = (if n < 10 then [digit_char n] else str_nat (n div 10) @ [digit_char (n mod 10)])"

declare str_nat.simps [simp del]

definition format_04d :: "int \<Rightarrow> string" where
  \<comment> \<open>\<^verbatim>\<open>f"{n:04d}"\<close>: at least four characters, the sign first, zeros after it\<close>
  "format_04d n =
     (if n < 0
      then (let s = str_nat (nat (- n)) in CHR ''-'' # replicate (3 - length s) CHR ''0'' @ s)
      else (let s = str_nat (nat n) in replicate (4 - length s) CHR ''0'' @ s))"

text \<open>
  A Python \<open>dict\<close> that is iterated is an association list in insertion order: storing
  under a key that is present replaces the value where the key stands, storing under a
  new key appends.
\<close>

fun dict_set :: "('k \<times> 'v) list \<Rightarrow> 'k \<Rightarrow> 'v \<Rightarrow> ('k \<times> 'v) list" where
  "dict_set [] k v = [(k, v)]"
| "dict_set ((k', v') # kvs) k v =
     (if k' = k then (k, v) # kvs else (k', v') # dict_set kvs k v)"

datatype error = AttributeError | RuntimeError

section \<open>The output document\<close>

datatype qcolor = QtTransparent | QColor nat nat nat
datatype qbrush = NoBrush | Brush qcolor
datatype font_weight = Normal | Bold
datatype valign = QtVAlignNormal | QtVAlignSuper | QtVAlignSub
datatype qalign = QtAlignLeft | QtAlignRight | QtAlignCenter | QtAlignJustify | QtAlignAbsolute
datatype break_policy = PageBreakAuto | QtPageBreakBefore | QtPageBreakAfter
datatype height_type = SingleHeight | ProportionalHeight

record QTextCharFormat =
  fontWeight :: font_weight
  fontItalic :: bool
  fontStrikeOut :: bool
  fontUnderline :: bool
  fontPointSize :: real
  background :: qbrush
  foreground :: qbrush
  verticalAlignment :: valign
  anchor :: bool
  anchorNames :: "string list"
  anchorHref :: string

record QTextBlockFormat =
  topMargin :: real
  bottomMargin :: real
  leftMargin :: real
  rightMargin :: real
  textIndent :: real
  alignment :: qalign
  blockLineHeight :: real
  blockLineHeightType :: height_type
  pageBreakPolicy :: break_policy

definition new_QTextCharFormat :: QTextCharFormat where
  "new_QTextCharFormat =
     \<lparr>fontWeight = Normal, fontItalic = False, fontStrikeOut = False, fontUnderline = False,
      fontPointSize = 0, background = NoBrush, foreground = NoBrush,
      verticalAlignment = QtVAlignNormal, anchor = False, anchorNames = [], anchorHref = []\<rparr>"

definition new_QTextBlockFormat :: QTextBlockFormat where
  "new_QTextBlockFormat =
     \<lparr>topMargin = 0, bottomMargin = 0, leftMargin = 0, rightMargin = 0, textIndent = 0,
      alignment = QtAlignLeft, blockLineHeight = 0, blockLineHeightType = SingleHeight,
      pageBreakPolicy = PageBreakAuto\<rparr>"

text \<open>
  The rich-text document is the sink of the converter. It is a sequence of paragraphs,
  never empty; each paragraph has a block format and the runs inserted into it, a run
  being a text with its character format. Every cursor of the source is moved to the end
  of the document before it is used and stays there, so the document is kept as the
  paragraphs before the last one and the last one, where the cursor stands. A run is
  recorded as the source inserts it, also when its text is empty, and a line break in
  an inserted text stays in its run (the toolkit would start a paragraph there). The
  position of the cursor counts the characters of all runs and one separator between
  two paragraphs.
\<close>

record QTextBlock =
  blockFormat :: QTextBlockFormat
  runs :: "(string \<times> QTextCharFormat) list"

record QTextDocument =
  earlier :: "QTextBlock list"
  current :: QTextBlock

definition new_QTextDocument :: QTextDocument where
  "new_QTextDocument = \<lparr>earlier = [], current = \<lparr>blockFormat = new_QTextBlockFormat, runs = []\<rparr>\<rparr>"

definition paragraphs :: "QTextDocument \<Rightarrow> QTextBlock list" where
  "paragraphs doc = earlier doc @ [current doc]"

definition block_length :: "QTextBlock \<Rightarrow> nat" where
  "block_length b = sum_list (map (\<lambda>r. length (fst r)) (runs b))"

definition position :: "QTextDocument \<Rightarrow> nat" where
  "position doc =
     sum_list (map block_length (earlier doc)) + length (earlier doc) + block_length (current doc)"

definition insertBlock :: "QTextDocument \<Rightarrow> QTextBlockFormat \<Rightarrow> QTextDocument" where
  "insertBlock doc bFmt =
     \<lparr>earlier = earlier doc @ [current doc], current = \<lparr>blockFormat = bFmt, runs = []\<rparr>\<rparr>"

definition setBlockFormat :: "QTextDocument \<Rightarrow> QTextBlockFormat \<Rightarrow> QTextDocument" where
  "setBlockFormat doc bFmt = doc\<lparr>current := (current doc)\<lparr>blockFormat := bFmt\<rparr>\<rparr>"

definition insertText :: "QTextDocument \<Rightarrow> string \<Rightarrow> QTextCharFormat \<Rightarrow> QTextDocument" where
  "insertText doc s cFmt = doc\<lparr>current := (current doc)\<lparr>runs := runs (current doc) @ [(s, cFmt)]\<rparr>\<rparr>"

definition newBlock :: "QTextDocument \<Rightarrow> QTextBlockFormat \<Rightarrow> QTextDocument" where
  "newBlock doc bFmt = (if position doc > 0 then insertBlock doc bFmt else setBlockFormat doc bFmt)"

section \<open>The tokenizer's data\<close>

text \<open>
  The converter extends the class \<open>Tokenizer\<close> and reads the enumerations of
  \<open>novelwriter.formats.shared\<close> and the constants of \<open>novelwriter.constants\<close>.
\<close>

text \<open>Modelled from the spec: the enumeration \<open>BlockTyp\<close>, with the block types of the data model.\<close>

datatype BlockTyp = TITLE | HEAD1 | HEAD2 | HEAD3 | HEAD4 | TEXT | SEP | SKIP | COMMENT | KEYWORD

text \<open>Modelled from the spec: the heading types \<open>L_HEADINGS\<close> of the tokenizer.\<close>

definition L_HEADINGS :: "BlockTyp list" where
  "L_HEADINGS = [TITLE, HEAD1, HEAD2, HEAD3, HEAD4]"

text \<open>
  Modelled from the spec: the flags \<open>BlockFmt\<close>. A value of the flag type is the set of
  the flags that are set, and \<^verbatim>\<open>tStyle & BlockFmt.X\<close> is true when \<open>X\<close> is in the set.
\<close>

datatype BlockFmt =
  LEFT | RIGHT | CENTRE | JUSTIFY | PBB | PBA | Z_BTMMRG | Z_TOPMRG | IND_L | IND_R | IND_T

text \<open>Modelled from the spec: the enumeration \<open>TextFmt\<close> of the format tags.\<close>

datatype TextFmt =
  B_B | B_E | I_B | I_E | D_B | D_E | U_B | U_E | M_B | M_E
| SUP_B | SUP_E | SUB_B | SUB_E | COL_B | COL_E | ANM_B | ANM_E | HRF_B | HRF_E | FNOTE

type_synonym T_Formats = "(int \<times> TextFmt \<times> string) list"
type_synonym T_Note = "string \<times> T_Formats"
type_synonym T_Block = "BlockTyp \<times> int \<times> string \<times> T_Formats \<times> BlockFmt set option"

record Theme =
  theme_text :: qcolor
  theme_head :: qcolor
  theme_code :: qcolor
  theme_highlight :: qcolor

record QFont =
  ascent :: real
  pointSizeF :: real

text \<open>
  The constants of \<open>novelwriter.constants\<close> that the converter reads are parameters:
  the line separator and the non-breaking space of \<open>nwUnicode\<close>, the line break marker of
  \<open>nwHeadFmt\<close> and the table of heading scales of \<open>nwStyles\<close>.
\<close>

record Constants =
  U_LSEP :: string
  U_NBSP :: string
  BR :: string
  H_SIZES :: "nat \<rightharpoonup> real"

text \<open>
  The attributes of the base class that the converter reads. Margins, sizes and scales
  are floats in the source and reals here; the converter only copies and multiplies them.
\<close>

record Tokenizer =
  constants :: Constants
  blocks :: "T_Block list"
  footnotes :: "string \<rightharpoonup> T_Note"
  classes :: "string \<rightharpoonup> qcolor"
  theme :: Theme
  handle :: string
  textFont :: QFont
  marginTitle :: "real \<times> real"
  marginHead1 :: "real \<times> real"
  marginHead2 :: "real \<times> real"
  marginHead3 :: "real \<times> real"
  marginHead4 :: "real \<times> real"
  marginText :: "real \<times> real"
  marginMeta :: "real \<times> real"
  marginSep :: "real \<times> real"
  firstWidth :: real
  lineHeight :: real
  scaleHeads :: bool
  boldHeads :: bool
  colorHeads :: bool
  localLookup :: "string \<Rightarrow> string"

section \<open>The converter\<close>

text \<open>
  The attributes that \<open>initDocument\<close> creates. Before it has run they do not exist, and
  reading one raises \<open>AttributeError\<close>.
\<close>

record Styles =
  mHead :: "BlockTyp \<rightharpoonup> real \<times> real"
  sHead :: "BlockTyp \<rightharpoonup> real"
  mText :: "real \<times> real"
  mMeta :: "real \<times> real"
  mSep :: "real \<times> real"
  mIndent :: real
  tIndent :: real
  blockFmt :: QTextBlockFormat
  charFmt :: QTextCharFormat

record ToQTextDocument = Tokenizer +
  document :: QTextDocument
  usedNotes :: "(string \<times> nat) list"
  init :: bool
  bold :: font_weight
  normal :: font_weight
  styles :: "Styles option"
  cTitle :: "QTextCharFormat option"

text \<open>
  \<open>__init__\<close>, on the attributes of the base class as its constructor leaves them: a new
  document, no used note, not initialised, the two font weights, no style attribute
  yet. The dictionary \<open>_styles\<close>, which no method reads, and the page size and margins,
  which only the export reads, are left out.
\<close>

definition ToQTextDocument_init :: "Tokenizer \<Rightarrow> ToQTextDocument" where
  "ToQTextDocument_init tok =
     Tokenizer.extend tok
       (ToQTextDocument.fields new_QTextDocument [] False Bold Normal None None)"

text \<open>
  \<open>initDocument\<close>. It starts with the method of the same name of the base class, which
  is not among the sources; the attributes of the base class are taken as they are
  after that call. The document is cleared, and the scaled sizes and the base formats
  are computed from the font and the configuration.
\<close>

definition initDocument :: "ToQTextDocument \<Rightarrow> ToQTextDocument" where
  "initDocument c =
     (let mPx = ascent (textFont c);
          fPt = pointSizeF (textFont c);
          hScale = scaleHeads c;
          size = (\<lambda>k. if hScale
                       then (case H_SIZES (constants c) k of None \<Rightarrow> 1 | Some h \<Rightarrow> h) * fPt
                       else fPt);
          scaled = (\<lambda>m. (mPx * fst m, mPx * snd m));
          m_text = scaled (marginText c)
      in c\<lparr>document := new_QTextDocument,
            init := True,
            styles := Some
              \<lparr>mHead = [TITLE \<mapsto> scaled (marginTitle c), HEAD1 \<mapsto> scaled (marginHead1 c),
                        HEAD2 \<mapsto> scaled (marginHead2 c), HEAD3 \<mapsto> scaled (marginHead3 c),
                        HEAD4 \<mapsto> scaled (marginHead4 c)],
               sHead = [TITLE \<mapsto> size 0, HEAD1 \<mapsto> size 1, HEAD2 \<mapsto> size 2,
                        HEAD3 \<mapsto> size 3, HEAD4 \<mapsto> size 4],
               mText = m_text,
               mMeta = scaled (marginMeta c),
               mSep = scaled (marginSep c),
               mIndent = mPx * 2,
               tIndent = mPx * firstWidth c,
               blockFmt = new_QTextBlockFormat
                 \<lparr>topMargin := fst m_text, bottomMargin := snd m_text,
                  alignment := QtAlignAbsolute,
                  blockLineHeight := 100 * lineHeight c,
                  blockLineHeightType := ProportionalHeight\<rparr>,
               charFmt = new_QTextCharFormat
                 \<lparr>background := Brush QtTransparent,
                  foreground := Brush (theme_text (theme c))\<rparr>\<rparr>\<rparr>)"

section \<open>The Inline Fragment Applier\<close>

text \<open>
  \<open>_insertFragments\<close>, the branches of the loop body that construct the next character
  format (all tags but the footnote reference, which leaves the format as it is). A
  colour of the table of classes is an object and always true as a condition, so the
  test of the colour-begin branch fails only for a class that is not in the table.
\<close>

fun nextFormat :: "ToQTextDocument \<Rightarrow> QTextCharFormat \<Rightarrow> TextFmt \<Rightarrow> string \<Rightarrow> QTextCharFormat" where
  "nextFormat c cFmt B_B data = cFmt\<lparr>fontWeight := bold c\<rparr>"
| "nextFormat c cFmt B_E data = cFmt\<lparr>fontWeight := normal c\<rparr>"
| "nextFormat c cFmt I_B data = cFmt\<lparr>fontItalic := True\<rparr>"
| "nextFormat c cFmt I_E data = cFmt\<lparr>fontItalic := False\<rparr>"
| "nextFormat c cFmt D_B data = cFmt\<lparr>fontStrikeOut := True\<rparr>"
| "nextFormat c cFmt D_E data = cFmt\<lparr>fontStrikeOut := False\<rparr>"
| "nextFormat c cFmt U_B data = cFmt\<lparr>fontUnderline := True\<rparr>"
| "nextFormat c cFmt U_E data = cFmt\<lparr>fontUnderline := False\<rparr>"
| "nextFormat c cFmt M_B data = cFmt\<lparr>background := Brush (theme_highlight (theme c))\<rparr>"
| "nextFormat c cFmt M_E data = cFmt\<lparr>background := Brush QtTransparent\<rparr>"
| "nextFormat c cFmt SUP_B data = cFmt\<lparr>verticalAlignment := QtVAlignSuper\<rparr>"
| "nextFormat c cFmt SUP_E data = cFmt\<lparr>verticalAlignment := QtVAlignNormal\<rparr>"
| "nextFormat c cFmt SUB_B data = cFmt\<lparr>verticalAlignment := QtVAlignSub\<rparr>"
| "nextFormat c cFmt SUB_E data = cFmt\<lparr>verticalAlignment := QtVAlignNormal\<rparr>"
| "nextFormat c cFmt COL_B data =
     (case classes c data of Some color \<Rightarrow> cFmt\<lparr>foreground := Brush color\<rparr> | None \<Rightarrow> cFmt)"
| "nextFormat c cFmt COL_E data = cFmt\<lparr>foreground := Brush (theme_text (theme c))\<rparr>"
| "nextFormat c cFmt ANM_B data = cFmt\<lparr>anchor := True, anchorNames := [data]\<rparr>"
| "nextFormat c cFmt ANM_E data = cFmt\<lparr>anchor := False\<rparr>"
| "nextFormat c cFmt HRF_B data = cFmt\<lparr>fontUnderline := True, anchor := True, anchorHref := data\<rparr>"
| "nextFormat c cFmt HRF_E data = cFmt\<lparr>fontUnderline := False, anchor := False\<rparr>"
| "nextFormat c cFmt FNOTE data = cFmt"

text \<open>
  The branch of the footnote reference. It reads \<open>self._charFmt\<close>, which exists once
  \<open>initDocument\<close> has run.
\<close>

definition insertFootnote :: "ToQTextDocument \<Rightarrow> QTextCharFormat \<Rightarrow> string \<Rightarrow> error + ToQTextDocument" where
  "insertFootnote c cFmt data =
     (case styles c of
        None \<Rightarrow> Inl AttributeError
      | Some st \<Rightarrow>
          (let xFmt = (charFmt st)\<lparr>foreground := Brush (theme_code (theme c)),
                                   verticalAlignment := QtVAlignSuper\<rparr>
           in if data \<in> dom (footnotes c)
              then (let index = length (usedNotes c) + 1;
                        used = dict_set (usedNotes c) data index;
                        xFmt = xFmt\<lparr>anchor := True,
                                    anchorHref := ''#footnote_'' @ str_nat index,
                                    fontUnderline := True\<rparr>
                    in Inr (c\<lparr>usedNotes := used,
                              document := insertText (document c) (''['' @ str_nat index @ '']'') xFmt\<rparr>))
              else Inr (c\<lparr>document := insertText (document c) ''[ERR]'' cFmt\<rparr>)))"

text \<open>
  The loop over the format spans, with the running format \<open>cFmt\<close> and the offset
  \<open>start\<close>, and after it the insertion of what is left of the text.
\<close>

fun insertSpans ::
  "ToQTextDocument \<Rightarrow> string \<Rightarrow> QTextCharFormat \<Rightarrow> int \<Rightarrow> T_Formats \<Rightarrow> error + ToQTextDocument" where
  "insertSpans c temp cFmt start [] =
     Inr (c\<lparr>document := insertText (document c) (py_slice_from temp start) cFmt\<rparr>)"
| "insertSpans c temp cFmt start ((pos, fmt, data) # tFmt) =
     (let c1 = c\<lparr>document := insertText (document c) (py_slice temp start pos) cFmt\<rparr>
      in if fmt = FNOTE
         then (case insertFootnote c1 cFmt data of
                 Inl e \<Rightarrow> Inl e
               | Inr c2 \<Rightarrow> insertSpans c2 temp cFmt pos tFmt)
         else insertSpans c1 temp (nextFormat c1 cFmt fmt data) pos tFmt)"

definition insertFragments ::
  "ToQTextDocument \<Rightarrow> string \<Rightarrow> T_Formats \<Rightarrow> QTextCharFormat \<Rightarrow> error + ToQTextDocument" where
  "insertFragments c text tFmt dFmt =
     insertSpans c (str_replace text [CHR 0x0A] (U_LSEP (constants c))) dFmt 0 tFmt"

section \<open>Headings and blocks\<close>

definition genHeadStyle ::
  "ToQTextDocument \<Rightarrow> BlockTyp \<Rightarrow> int \<Rightarrow> QTextBlockFormat
     \<Rightarrow> error + (ToQTextDocument \<times> QTextBlockFormat \<times> QTextCharFormat)" where
  "genHeadStyle c hType nHead rFmt =
     (case styles c of
        None \<Rightarrow> Inl AttributeError
      | Some st \<Rightarrow>
          (let (mTop, mBottom) = (case mHead st hType of None \<Rightarrow> (0, 0) | Some m \<Rightarrow> m);
               bFmt = rFmt\<lparr>topMargin := mTop, bottomMargin := mBottom\<rparr>;
               weight = (if boldHeads c then bold c else normal c);
               c1 = c\<lparr>cTitle := Some ((charFmt st)\<lparr>fontWeight := weight\<rparr>)\<rparr>;
               hCol = (colorHeads c \<and> hType \<noteq> TITLE);
               cFmt = (charFmt st)
                 \<lparr>foreground := Brush (if hCol then theme_head (theme c) else theme_text (theme c)),
                  fontWeight := weight,
                  fontPointSize := (case sHead st hType of None \<Rightarrow> 1 | Some s \<Rightarrow> s)\<rparr>;
               cFmt = (if nHead \<ge> 0
                       then cFmt\<lparr>anchorNames := [handle c @ '':T'' @ format_04d nHead],
                                 anchor := True\<rparr>
                       else cFmt)
           in Inr (c1, bFmt, cFmt)))"

text \<open>\<open>doConvert\<close>, the loop body: the block format from the block type.\<close>

definition typeMargins :: "Styles \<Rightarrow> BlockTyp \<Rightarrow> QTextBlockFormat" where
  "typeMargins st tType =
     (if tType \<in> {COMMENT, KEYWORD}
      then (blockFmt st)\<lparr>topMargin := fst (mMeta st), bottomMargin := snd (mMeta st)\<rparr>
      else if tType = SEP
      then (blockFmt st)\<lparr>topMargin := fst (mSep st), bottomMargin := snd (mSep st)\<rparr>
      else blockFmt st)"

text \<open>\<open>doConvert\<close>, the loop body: the style flags, applied in the order of the source.\<close>

definition styleFlags :: "Styles \<Rightarrow> BlockFmt set \<Rightarrow> QTextBlockFormat \<Rightarrow> QTextBlockFormat" where
  "styleFlags st tStyle bFmt0 =
     (let bFmt = (if LEFT \<in> tStyle then bFmt0\<lparr>alignment := QtAlignLeft\<rparr>
                  else if RIGHT \<in> tStyle then bFmt0\<lparr>alignment := QtAlignRight\<rparr>
                  else if CENTRE \<in> tStyle then bFmt0\<lparr>alignment := QtAlignCenter\<rparr>
                  else if JUSTIFY \<in> tStyle then bFmt0\<lparr>alignment := QtAlignJustify\<rparr>
                  else bFmt0);
          bFmt = (if PBB \<in> tStyle then bFmt\<lparr>pageBreakPolicy := QtPageBreakBefore\<rparr> else bFmt);
          bFmt = (if PBA \<in> tStyle then bFmt\<lparr>pageBreakPolicy := QtPageBreakAfter\<rparr> else bFmt);
          bFmt = (if Z_BTMMRG \<in> tStyle then bFmt\<lparr>bottomMargin := 0\<rparr> else bFmt);
          bFmt = (if Z_TOPMRG \<in> tStyle then bFmt\<lparr>topMargin := 0\<rparr> else bFmt);
          bFmt = (if IND_L \<in> tStyle then bFmt\<lparr>leftMargin := mIndent st\<rparr> else bFmt);
          bFmt = (if IND_R \<in> tStyle then bFmt\<lparr>rightMargin := mIndent st\<rparr> else bFmt);
          bFmt = (if IND_T \<in> tStyle then bFmt\<lparr>textIndent := tIndent st\<rparr> else bFmt)
      in bFmt)"

definition blockStyle :: "Styles \<Rightarrow> BlockTyp \<Rightarrow> BlockFmt set option \<Rightarrow> QTextBlockFormat" where
  "blockStyle st tType tStyle =
     (case tStyle of
        None \<Rightarrow> typeMargins st tType
      | Some flags \<Rightarrow> styleFlags st flags (typeMargins st tType))"

text \<open>
  \<open>doConvert\<close>, one pass of the loop. Its first statement reads \<open>self._blockFmt\<close>.
\<close>

fun convertBlock :: "ToQTextDocument \<Rightarrow> T_Block \<Rightarrow> error + ToQTextDocument" where
  "convertBlock c (tType, nHead, tText, tFormat, tStyle) =
     (case styles c of
        None \<Rightarrow> Inl AttributeError
      | Some st \<Rightarrow>
          (let bFmt = blockStyle st tType tStyle
           in if tType \<in> {TEXT, COMMENT, KEYWORD}
              then insertFragments (c\<lparr>document := newBlock (document c) bFmt\<rparr>)
                     tText tFormat (charFmt st)
              else if tType \<in> set L_HEADINGS
              then (case genHeadStyle c tType nHead bFmt of
                      Inl e \<Rightarrow> Inl e
                    | Inr (c1, hFmt, cFmt) \<Rightarrow>
                        Inr (c1\<lparr>document :=
                               insertText (newBlock (document c1) hFmt)
                                 (str_replace tText (BR (constants c1)) [CHR 0x0A]) cFmt\<rparr>))
              else if tType = SEP
              then Inr (c\<lparr>document := insertText (newBlock (document c) bFmt) tText (charFmt st)\<rparr>)
              else if tType = SKIP
              then Inr (c\<lparr>document :=
                          insertText (newBlock (document c) bFmt) (U_NBSP (constants c)) (charFmt st)\<rparr>)
              else Inr c))"

fun convertBlocks :: "ToQTextDocument \<Rightarrow> T_Block list \<Rightarrow> error + ToQTextDocument" where
  "convertBlocks c [] = Inr c"
| "convertBlocks c (b # bs) =
     (case convertBlock c b of Inl e \<Rightarrow> Inl e | Inr c1 \<Rightarrow> convertBlocks c1 bs)"

definition doConvert :: "ToQTextDocument \<Rightarrow> error + ToQTextDocument" where
  "doConvert c = (if \<not> init c then Inr c else convertBlocks c (blocks c))"

section \<open>The Footnote Appender\<close>

text \<open>
  \<open>appendFootnotes\<close>, the body of the loop over the used notes. A stored note is a pair,
  which is always true as a condition, so the test fails only for a key that is not in
  the store.
\<close>

definition appendNote :: "ToQTextDocument \<Rightarrow> string \<times> nat \<Rightarrow> error + ToQTextDocument" where
  "appendNote c item =
     (case footnotes c (fst item) of
        None \<Rightarrow> Inr c
      | Some content \<Rightarrow>
          (case styles c of
             None \<Rightarrow> Inl AttributeError
           | Some st \<Rightarrow>
               (let cFmt = (charFmt st)\<lparr>foreground := Brush (theme_code (theme c)),
                                        anchor := True,
                                        anchorNames := [''footnote_'' @ str_nat (snd item)]\<rparr>;
                    doc = insertText (newBlock (document c) (blockFmt st))
                            (str_nat (snd item) @ ''. '') cFmt
                in insertFragments (c\<lparr>document := doc\<rparr>) (fst content) (snd content) (charFmt st))))"

text \<open>
  The loop runs over the live dictionary: the iterator steps through the entries by
  their place, reads key and index when it reaches them, and raises \<open>RuntimeError\<close> at
  its next step once the dictionary has another size than at the start (\<open>n\<close>), which
  happens when the content of a note refers to a note that was not used before.
\<close>

fun appendNotes :: "nat \<Rightarrow> nat list \<Rightarrow> ToQTextDocument \<Rightarrow> error + ToQTextDocument" where
  "appendNotes n [] c = (if length (usedNotes c) \<noteq> n then Inl RuntimeError else Inr c)"
| "appendNotes n (i # rest) c =
     (if length (usedNotes c) \<noteq> n then Inl RuntimeError
      else (case appendNote c (usedNotes c ! i) of
              Inl e \<Rightarrow> Inl e
            | Inr c1 \<Rightarrow> appendNotes n rest c1))"

definition appendFootnotes :: "ToQTextDocument \<Rightarrow> error + ToQTextDocument" where
  "appendFootnotes c =
     (if usedNotes c = [] then Inr c
      else (case styles c of
              None \<Rightarrow> Inl AttributeError
            | Some st \<Rightarrow>
                (case genHeadStyle c HEAD4 (- 1) (blockFmt st) of
                   Inl e \<Rightarrow> Inl e
                 | Inr (c1, bFmt, cFmt) \<Rightarrow>
                     (let c2 = c1\<lparr>document :=
                                    insertText (newBlock (document c1) bFmt)
                                      (localLookup c1 ''Footnotes'') cFmt\<rparr>
                      in appendNotes (length (usedNotes c2)) [0..<length (usedNotes c2)] c2))))"

section \<open>The runs of a text, in the words of the specification\<close>

text \<open>
  The specification describes the Inline Fragment Applier by the runs it emits: for the
  span at place \<open>i\<close>, the slice of the text from the cursor before that span (the offset
  of the span before it, \<open>start\<close> for the first) up to the offset of the span, in the
  running format, which is the base format changed by the spans before \<open>i\<close>; and after
  all spans what is left of the text, in the format changed by all spans.
\<close>

definition insertRuns :: "QTextDocument \<Rightarrow> (string \<times> QTextCharFormat) list \<Rightarrow> QTextDocument" where
  "insertRuns doc rs = doc\<lparr>current := (current doc)\<lparr>runs := runs (current doc) @ rs\<rparr>\<rparr>"

definition runningFormat :: "ToQTextDocument \<Rightarrow> QTextCharFormat \<Rightarrow> T_Formats \<Rightarrow> QTextCharFormat" where
  "runningFormat c dFmt tFmt = foldl (\<lambda>f (pos, fmt, data). nextFormat c f fmt data) dFmt tFmt"

definition sliceRun ::
  "ToQTextDocument \<Rightarrow> string \<Rightarrow> QTextCharFormat \<Rightarrow> int \<Rightarrow> T_Formats \<Rightarrow> nat \<Rightarrow> string \<times> QTextCharFormat" where
  "sliceRun c temp dFmt start tFmt i =
     (py_slice temp ((start # map fst tFmt) ! i) (fst (tFmt ! i)), runningFormat c dFmt (take i tFmt))"

definition lastRun ::
  "ToQTextDocument \<Rightarrow> string \<Rightarrow> QTextCharFormat \<Rightarrow> int \<Rightarrow> T_Formats \<Rightarrow> string \<times> QTextCharFormat" where
  "lastRun c temp dFmt start tFmt =
     (py_slice_from temp (last (start # map fst tFmt)), runningFormat c dFmt tFmt)"

definition plainSpans :: "T_Formats \<Rightarrow> bool" where
  "plainSpans tFmt = list_all (\<lambda>s. fst (snd s) \<noteq> FNOTE) tFmt"

definition fragmentRuns ::
  "ToQTextDocument \<Rightarrow> string \<Rightarrow> QTextCharFormat \<Rightarrow> int \<Rightarrow> T_Formats \<Rightarrow> (string \<times> QTextCharFormat) list" where
  "fragmentRuns c temp dFmt start tFmt =
     map (sliceRun c temp dFmt start tFmt) [0..<length tFmt] @ [lastRun c temp dFmt start tFmt]"

section \<open>Sample data\<close>

text \<open>
  A project with two stored footnotes, used to run the converter on concrete blocks.
\<close>

definition sample_tokenizer :: "T_Block list \<Rightarrow> Tokenizer" where
  "sample_tokenizer bs =
     \<lparr>constants = \<lparr>U_LSEP = ''|'', U_NBSP = ''_'', BR = ''{br}'', H_SIZES = [0 \<mapsto> 2, 1 \<mapsto> 2]\<rparr>,
      blocks = bs,
      footnotes = [''n1'' \<mapsto> (''See note'', []), ''n2'' \<mapsto> (''Other'', [])],
      classes = [''modifier'' \<mapsto> QColor 0 128 0],
      theme = \<lparr>theme_text = QColor 0 0 0, theme_head = QColor 0 0 255,
               theme_code = QColor 128 0 0, theme_highlight = QColor 255 255 0\<rparr>,
      handle = ''0000000000001'',
      textFont = \<lparr>ascent = 10, pointSizeF = 12\<rparr>,
      marginTitle = (2, 1), marginHead1 = (2, 1), marginHead2 = (2, 1), marginHead3 = (1, 1),
      marginHead4 = (1, 1), marginText = (0, 1), marginMeta = (0, 1), marginSep = (1, 1),
      firstWidth = 1, lineHeight = 1,
      scaleHeads = True, boldHeads = True, colorHeads = True,
      localLookup = (\<lambda>s. s)\<rparr>"

definition sample_converter :: "T_Block list \<Rightarrow> ToQTextDocument" where
  \<comment> \<open>constructed, then initialised\<close>
  "sample_converter bs = initDocument (ToQTextDocument_init (sample_tokenizer bs))"

definition sample_text_block :: T_Block where
  "sample_text_block = (TEXT, - 1, ''Hello [world]'', [(6, B_B, []), (11, B_E, [])], None)"

section \<open>Reading the outcome of a pass\<close>

text \<open>
  What a pass has written, for the statements below: the texts of the runs of every
  paragraph, the runs with their formats, and the top and bottom margin of every
  paragraph.
\<close>

definition texts :: "ToQTextDocument \<Rightarrow> string list list" where
  "texts c = map (\<lambda>b. map fst (runs b)) (paragraphs (document c))"

definition rendered :: "ToQTextDocument \<Rightarrow> (string \<times> QTextCharFormat) list list" where
  "rendered c = map runs (paragraphs (document c))"

definition margins :: "ToQTextDocument \<Rightarrow> (real \<times> real) list" where
  "margins c = map (\<lambda>b. (topMargin (blockFormat b), bottomMargin (blockFormat b))) (paragraphs (document c))"

text \<open>The character format that \<open>initDocument\<close> sets up, for a theme.\<close>

definition base_charFmt :: "Theme \<Rightarrow> QTextCharFormat" where
  "base_charFmt th = new_QTextCharFormat\<lparr>background := Brush QtTransparent, foreground := Brush (theme_text th)\<rparr>"

text \<open>
  A converter is initialised when the \<open>_init\<close> flag is set and the style attributes
  are the ones \<open>initDocument\<close> computes from its configuration.
\<close>

definition initialised :: "ToQTextDocument \<Rightarrow> bool" where
  "initialised c \<longleftrightarrow> init c \<and> styles c = styles (initDocument c)"


definition reconvertEmpty :: "ToQTextDocument \<Rightarrow> error + ToQTextDocument" where
  \<comment> \<open>a conversion pass; then, on the same instance, initialisation, a pass over the empty
      block sequence and the footnote pass\<close>
  "reconvertEmpty c =
     (case doConvert c of
        Inl e \<Rightarrow> Inl e
      | Inr c1 \<Rightarrow>
          (case doConvert (initDocument (c1\<lparr>blocks := []\<rparr>)) of
             Inl e \<Rightarrow> Inl e
           | Inr c2 \<Rightarrow> appendFootnotes c2))"

section \<open>The footnote section, in the words of the specification\<close>


text \<open>
  The paragraphs of one used key: none when the key is not in the store, else one
  paragraph in the base block format, which starts with the index, a full stop and a
  blank in the footnote format and goes on with the runs of the stored text.
\<close>

definition noteParagraphs :: "ToQTextDocument \<Rightarrow> Styles \<Rightarrow> string \<times> nat \<Rightarrow> QTextBlock list" where
  "noteParagraphs c st item =
     (case footnotes c (fst item) of
        None \<Rightarrow> []
      | Some content \<Rightarrow>
          [\<lparr>blockFormat = blockFmt st,
            runs = (str_nat (snd item) @ ''. '',
                    (charFmt st)\<lparr>foreground := Brush (theme_code (theme c)),
                                  anchor := True,
                                  anchorNames := [''footnote_'' @ str_nat (snd item)]\<rparr>)
                   # fragmentRuns c (str_replace (fst content) [CHR 0x0A] (U_LSEP (constants c)))
                       (charFmt st) 0 (snd content)\<rparr>])"

section \<open>More sample data\<close>

definition sample_heading_block :: T_Block where
  "sample_heading_block = (HEAD1, 1, ''Chapter One'', [], Some {Z_TOPMRG, Z_BTMMRG})"

definition sample_note_block :: T_Block where
  "sample_note_block = (TEXT, - 1, ''xyz'', [(1, FNOTE, ''n1''), (2, FNOTE, ''n1''), (3, FNOTE, ''n2'')], None)"





section \<open>Evaluation on the sample data\<close>

lemmas construct_defs =
  ToQTextDocument_init_def sample_tokenizer_def Tokenizer.defs ToQTextDocument.defs

lemmas document_defs =
  newBlock_def position_def block_length_def insertText_def setBlockFormat_def insertBlock_def
  new_QTextDocument_def paragraphs_def insertRuns_def

lemmas slice_defs = py_slice_def py_slice_from_def clamp_index_def str_replace_def

lemmas convert_defs =
  doConvert_def initDocument_def insertFragments_def blockStyle_def typeMargins_def
  insertFootnote_def genHeadStyle_def L_HEADINGS_def Let_def

lemma initDocument_fields [simp]:
  "init (initDocument c)"
  "document (initDocument c) = new_QTextDocument"
  "usedNotes (initDocument c) = usedNotes c"
  "blocks (initDocument c) = blocks c"
  by (simp_all add: initDocument_def Let_def)

lemma sample_styles: "styles (sample_converter bs) = Some (the (styles (sample_converter bs)))"
  by (simp add: sample_converter_def initDocument_def Let_def)

lemma initialised_initDocument: "initialised (initDocument c)"
  by (simp add: initialised_def initDocument_def Let_def)

lemma sample_initialised: "initialised (sample_converter bs)"
  by (simp add: sample_converter_def initialised_initDocument)

lemma initialised_styles:
  "initialised c \<Longrightarrow> \<exists>st. styles c = Some st \<and> charFmt st = base_charFmt (theme c)"
  by (simp add: initialised_def initDocument_def Let_def base_charFmt_def)

section \<open>The loop over the spans\<close>

lemma insertText_insertRuns: "insertText doc s f = insertRuns doc [(s, f)]"
  by (simp add: insertText_def insertRuns_def)

lemma insertRuns_insertRuns [simp]: "insertRuns (insertRuns doc rs) rs' = insertRuns doc (rs @ rs')"
  by (simp add: insertRuns_def)

lemma insertRuns_Nil [simp]: "insertRuns doc [] = doc"
  by (simp add: insertRuns_def)

lemma nextFormat_frame [simp]:
  "nextFormat (c\<lparr>document := d\<rparr>) f t x = nextFormat c f t x"
  "nextFormat (c\<lparr>usedNotes := u\<rparr>) f t x = nextFormat c f t x"
  "nextFormat (c\<lparr>cTitle := ct\<rparr>) f t x = nextFormat c f t x"
  by (cases t; simp)+

lemma runningFormat_frame [simp]:
  "runningFormat (c\<lparr>document := d\<rparr>) = runningFormat c"
  "runningFormat (c\<lparr>usedNotes := u\<rparr>) = runningFormat c"
  "runningFormat (c\<lparr>cTitle := ct\<rparr>) = runningFormat c"
  by (simp_all add: runningFormat_def fun_eq_iff)

lemma sliceRun_frame [simp]:
  "sliceRun (c\<lparr>document := d\<rparr>) = sliceRun c"
  "sliceRun (c\<lparr>usedNotes := u\<rparr>) = sliceRun c"
  "sliceRun (c\<lparr>cTitle := ct\<rparr>) = sliceRun c"
  by (simp_all add: sliceRun_def fun_eq_iff)

lemma lastRun_frame [simp]:
  "lastRun (c\<lparr>document := d\<rparr>) = lastRun c"
  "lastRun (c\<lparr>usedNotes := u\<rparr>) = lastRun c"
  "lastRun (c\<lparr>cTitle := ct\<rparr>) = lastRun c"
  by (simp_all add: lastRun_def fun_eq_iff)

lemma sliceRun_0: "sliceRun c temp f s ((p, t, d) # rest) 0 = (py_slice temp s p, f)"
  by (simp add: sliceRun_def runningFormat_def)

lemma sliceRun_Suc:
  "sliceRun c temp f s ((p, t, d) # rest) (Suc i) = sliceRun c temp (nextFormat c f t d) p rest i"
  by (simp add: sliceRun_def runningFormat_def)

lemma lastRun_Nil: "lastRun c temp f s [] = (py_slice_from temp s, f)"
  by (simp add: lastRun_def runningFormat_def)

lemma lastRun_Cons:
  "lastRun c temp f s ((p, t, d) # rest) = lastRun c temp (nextFormat c f t d) p rest"
  by (simp add: lastRun_def runningFormat_def)

lemma fragmentRuns_Nil: "fragmentRuns c temp f s [] = [(py_slice_from temp s, f)]"
  by (simp add: fragmentRuns_def lastRun_Nil)

lemma fragmentRuns_Cons:
  "fragmentRuns c temp f s ((p, t, d) # rest) =
     (py_slice temp s p, f) # fragmentRuns c temp (nextFormat c f t d) p rest"
  unfolding fragmentRuns_def
  by (simp add: map_upt_Suc sliceRun_0 sliceRun_Suc lastRun_Cons del: upt_Suc)

lemma fragmentRuns_frame [simp]:
  "fragmentRuns (c\<lparr>document := d\<rparr>) = fragmentRuns c"
  "fragmentRuns (c\<lparr>usedNotes := u\<rparr>) = fragmentRuns c"
  "fragmentRuns (c\<lparr>cTitle := ct\<rparr>) = fragmentRuns c"
  by (simp_all add: fragmentRuns_def fun_eq_iff)

lemma insertSpans_plain:
  "plainSpans tFmt \<Longrightarrow>
   insertSpans c temp cFmt start tFmt =
     Inr (c\<lparr>document := insertRuns (document c) (fragmentRuns c temp cFmt start tFmt)\<rparr>)"
proof (induction tFmt arbitrary: c cFmt start)
  case Nil
  show ?case by (simp add: fragmentRuns_Nil insertText_insertRuns)
next
  case (Cons x rest)
  obtain p t d where x: "x = (p, t, d)" by (cases x) auto
  from Cons.prems have t: "t \<noteq> FNOTE" and rest: "plainSpans rest"
    by (simp_all add: plainSpans_def x)
  show ?case
    using t by (simp add: x Let_def Cons.IH [OF rest] fragmentRuns_Cons insertText_insertRuns)
qed

lemma map_fst_dict_set:
  "map fst (dict_set kvs k v) = (if k \<in> fst ` set kvs then map fst kvs else map fst kvs @ [k])"
  by (induction kvs) force+

lemma length_dict_set:
  "length (dict_set kvs k v) = (if k \<in> fst ` set kvs then length kvs else Suc (length kvs))"
  by (induction kvs) force+

lemma insertFootnote_result:
  assumes "styles c = Some st"
  shows "\<exists>u m. insertFootnote c cFmt data =
            Inr (c\<lparr>usedNotes := u, document := insertRuns (document c) [m]\<rparr>) \<and>
          (\<exists>ks. map fst u = map fst (usedNotes c) @ ks) \<and>
          (data \<notin> dom (footnotes c) \<longrightarrow> u = usedNotes c \<and> m = (''[ERR]'', cFmt))"
proof (cases "data \<in> dom (footnotes c)")
  case True
  let ?i = "length (usedNotes c) + 1"
  have "\<exists>ks. map fst (dict_set (usedNotes c) data ?i) = map fst (usedNotes c) @ ks"
    by (simp add: map_fst_dict_set)
  with True assms show ?thesis
    by (simp add: insertFootnote_def Let_def insertText_insertRuns del: ex_simps) blast
next
  case False
  have "insertFootnote c cFmt data =
          Inr (c\<lparr>usedNotes := usedNotes c, document := insertRuns (document c) [(''[ERR]'', cFmt)]\<rparr>)"
    using False assms by (simp add: insertFootnote_def Let_def insertText_insertRuns)
  then show ?thesis by (metis append_Nil2)
qed


lemma runningFormat_take_Suc:
  "runningFormat c f (take (Suc i) ((p, t, d) # rest)) = runningFormat c (nextFormat c f t d) (take i rest)"
  by (simp add: runningFormat_def)

lemma insertSpans_general:
  assumes "styles c = Some st"
  shows "\<exists>u marks.
           insertSpans c temp cFmt start tFmt =
             Inr (c\<lparr>usedNotes := u,
                    document := insertRuns (document c)
                      (concat (map (\<lambda>i. sliceRun c temp cFmt start tFmt i # marks ! i)
                                 [0..<length tFmt])
                       @ [lastRun c temp cFmt start tFmt])\<rparr>) \<and>
           length marks = length tFmt \<and>
           (\<forall>i<length tFmt. length (marks ! i) = (if fst (snd (tFmt ! i)) = FNOTE then 1 else 0)) \<and>
           (\<exists>ks. map fst u = map fst (usedNotes c) @ ks) \<and>
           (\<forall>i<length tFmt.
              fst (snd (tFmt ! i)) = FNOTE \<longrightarrow> snd (snd (tFmt ! i)) \<notin> dom (footnotes c) \<longrightarrow>
              marks ! i = [(''[ERR]'', runningFormat c cFmt (take i tFmt))]) \<and>
           ((\<forall>i<length tFmt.
               fst (snd (tFmt ! i)) = FNOTE \<longrightarrow> snd (snd (tFmt ! i)) \<notin> dom (footnotes c)) \<longrightarrow>
            u = usedNotes c)"
  using assms
proof (induction tFmt arbitrary: c cFmt start)
  case Nil
  have "insertSpans c temp cFmt start [] =
          Inr (c\<lparr>usedNotes := usedNotes c,
                 document := insertRuns (document c) [lastRun c temp cFmt start []]\<rparr>)"
    by (simp add: lastRun_Nil insertText_insertRuns)
  then show ?case by (intro exI [of _ "usedNotes c"] exI [of _ "[]"]) simp
next
  case (Cons x rest)
  obtain p t d where x: "x = (p, t, d)" by (cases x) auto
  let ?c1 = "c\<lparr>document := insertRuns (document c) [(py_slice temp start p, cFmt)]\<rparr>"
  have st1: "styles ?c1 = Some st" using Cons.prems by simp
  obtain u1 ms where step:
    "(if t = FNOTE then insertFootnote ?c1 cFmt d else Inr ?c1) =
       Inr (?c1\<lparr>usedNotes := u1, document := insertRuns (document ?c1) ms\<rparr>)"
    and ms: "length ms = (if t = FNOTE then 1 else 0)"
    and plain: "t \<noteq> FNOTE \<Longrightarrow> u1 = usedNotes c \<and> ms = []"
    and k1: "\<exists>ks. map fst u1 = map fst (usedNotes c) @ ks"
    and err: "t = FNOTE \<Longrightarrow> d \<notin> dom (footnotes c) \<Longrightarrow> u1 = usedNotes c \<and> ms = [(''[ERR]'', cFmt)]"
  proof (cases "t = FNOTE")
    case True
    from insertFootnote_result [OF st1, of cFmt d] obtain u m where
      "insertFootnote ?c1 cFmt d = Inr (?c1\<lparr>usedNotes := u, document := insertRuns (document ?c1) [m]\<rparr>)"
      "\<exists>ks. map fst u = map fst (usedNotes ?c1) @ ks"
      "d \<notin> dom (footnotes ?c1) \<longrightarrow> u = usedNotes ?c1 \<and> m = (''[ERR]'', cFmt)" by blast
    with True that [where ?u1.0 = u and ms = "[m]"] show ?thesis by simp
  next
    case False
    with that [where ?u1.0 = "usedNotes c" and ms = "[]"] show ?thesis by simp
  qed
  let ?c2 = "?c1\<lparr>usedNotes := u1, document := insertRuns (document ?c1) ms\<rparr>"
  let ?f = "nextFormat c cFmt t d"
  have st2: "styles ?c2 = Some st" using Cons.prems by simp
  from Cons.IH [OF st2, of ?f p] obtain u marks where
    run: "insertSpans ?c2 temp ?f p rest =
            Inr (?c2\<lparr>usedNotes := u,
                    document := insertRuns (document ?c2)
                      (concat (map (\<lambda>i. sliceRun ?c2 temp ?f p rest i # marks ! i) [0..<length rest])
                       @ [lastRun ?c2 temp ?f p rest])\<rparr>)"
    and len: "length marks = length rest"
    and each: "\<forall>i<length rest. length (marks ! i) = (if fst (snd (rest ! i)) = FNOTE then 1 else 0)"
    and k2: "\<exists>ks. map fst u = map fst (usedNotes ?c2) @ ks"
    and err2: "\<forall>i<length rest.
              fst (snd (rest ! i)) = FNOTE \<longrightarrow> snd (snd (rest ! i)) \<notin> dom (footnotes ?c2) \<longrightarrow>
              marks ! i = [(''[ERR]'', runningFormat ?c2 ?f (take i rest))]"
    and same2: "(\<forall>i<length rest.
               fst (snd (rest ! i)) = FNOTE \<longrightarrow> snd (snd (rest ! i)) \<notin> dom (footnotes ?c2)) \<longrightarrow>
            u = usedNotes ?c2"
    by blast
  have unfold: "insertSpans c temp cFmt start (x # rest) = insertSpans ?c2 temp ?f p rest"
  proof (cases "t = FNOTE")
    case True
    with step show ?thesis by (simp add: x Let_def insertText_insertRuns)
  next
    case False
    with plain have e: "?c2 = ?c1" by simp
    show ?thesis unfolding e using False by (simp add: x Let_def insertText_insertRuns)
  qed
  have keys: "\<exists>ks. map fst u = map fst (usedNotes c) @ ks"
    using k1 k2 by auto
  have f0: "t = FNOTE \<longrightarrow> nextFormat c cFmt t d = cFmt" by simp
  show ?case
  proof (intro exI [of _ u] exI [of _ "ms # marks"] conjI)
    show "insertSpans c temp cFmt start (x # rest) =
            Inr (c\<lparr>usedNotes := u,
                   document := insertRuns (document c)
                     (concat (map (\<lambda>i. sliceRun c temp cFmt start (x # rest) i # (ms # marks) ! i)
                                [0..<length (x # rest)])
                      @ [lastRun c temp cFmt start (x # rest)])\<rparr>)"
      unfolding unfold run
      by (simp add: x map_upt_Suc sliceRun_0 sliceRun_Suc lastRun_Cons del: upt_Suc)
    show "length (ms # marks) = length (x # rest)" using len by simp
    show "\<forall>i<length (x # rest).
            length ((ms # marks) ! i) = (if fst (snd ((x # rest) ! i)) = FNOTE then 1 else 0)"
      using ms each by (simp add: x All_less_Suc2)
    show "\<exists>ks. map fst u = map fst (usedNotes c) @ ks" by (rule keys)
    show "\<forall>i<length (x # rest).
              fst (snd ((x # rest) ! i)) = FNOTE \<longrightarrow>
              snd (snd ((x # rest) ! i)) \<notin> dom (footnotes c) \<longrightarrow>
              (ms # marks) ! i = [(''[ERR]'', runningFormat c cFmt (take i (x # rest)))]"
      using err err2
      by (simp add: x All_less_Suc2 runningFormat_take_Suc del: take_Suc_Cons)
        (simp add: runningFormat_def)
    show "(\<forall>i<length (x # rest).
               fst (snd ((x # rest) ! i)) = FNOTE \<longrightarrow>
               snd (snd ((x # rest) ! i)) \<notin> dom (footnotes c)) \<longrightarrow>
            u = usedNotes c"
      using err plain same2 by (cases "t = FNOTE") (simp_all add: x All_less_Suc2)
  qed
qed

lemma insertFragments_result:
  assumes "styles c = Some st"
  shows "\<exists>u rs. insertFragments c text tFmt dFmt =
            Inr (c\<lparr>usedNotes := u, document := insertRuns (document c) rs\<rparr>) \<and>
          (\<exists>ks. map fst u = map fst (usedNotes c) @ ks)"
  using insertSpans_general [OF assms] unfolding insertFragments_def by blast

section \<open>One block\<close>

lemma blockFormat_newBlock [simp]: "blockFormat (current (newBlock doc bFmt)) = bFmt"
  by (simp add: newBlock_def insertBlock_def setBlockFormat_def)

lemma blockFormat_insertRuns [simp]:
  "blockFormat (current (insertRuns doc rs)) = blockFormat (current doc)"
  by (simp add: insertRuns_def)

lemma blockFormat_insertText [simp]:
  "blockFormat (current (insertText doc s f)) = blockFormat (current doc)"
  by (simp add: insertText_def)

lemma heading_not_text: "tType \<in> set L_HEADINGS \<Longrightarrow> tType \<notin> {TEXT, COMMENT, KEYWORD}"
  by (auto simp: L_HEADINGS_def)

lemma genHeadStyle_result:
  assumes "styles c = Some st"
  shows "\<exists>ct cFmt.
           genHeadStyle c hType nHead rFmt =
             Inr (c\<lparr>cTitle := ct\<rparr>,
                  rFmt\<lparr>topMargin := fst (case mHead st hType of None \<Rightarrow> (0, 0) | Some m \<Rightarrow> m),
                       bottomMargin := snd (case mHead st hType of None \<Rightarrow> (0, 0) | Some m \<Rightarrow> m)\<rparr>,
                  cFmt) \<and>
           (0 \<le> nHead \<longrightarrow> anchor cFmt \<and> anchorNames cFmt = [handle c @ '':T'' @ format_04d nHead]) \<and>
           (nHead < 0 \<longrightarrow> anchor cFmt = anchor (charFmt st) \<and>
                           anchorNames cFmt = anchorNames (charFmt st)) \<and>
           fontPointSize cFmt = (case sHead st hType of None \<Rightarrow> 1 | Some s \<Rightarrow> s)"
proof -
  obtain mTop mBottom where m: "(case mHead st hType of None \<Rightarrow> (0, 0) | Some m \<Rightarrow> m) = (mTop, mBottom)"
    by (cases "case mHead st hType of None \<Rightarrow> (0::real, 0::real) | Some m \<Rightarrow> m") auto
  let ?w = "if boldHeads c then bold c else normal c"
  let ?f = "(charFmt st)
                 \<lparr>foreground := Brush (if colorHeads c \<and> hType \<noteq> TITLE then theme_head (theme c)
                                       else theme_text (theme c)),
                  fontWeight := ?w,
                  fontPointSize := (case sHead st hType of None \<Rightarrow> 1 | Some s \<Rightarrow> s)\<rparr>"
  let ?g = "if nHead \<ge> 0
            then ?f\<lparr>anchorNames := [handle c @ '':T'' @ format_04d nHead], anchor := True\<rparr>
            else ?f"
  have "genHeadStyle c hType nHead rFmt =
          Inr (c\<lparr>cTitle := Some ((charFmt st)\<lparr>fontWeight := ?w\<rparr>)\<rparr>,
               rFmt\<lparr>topMargin := mTop, bottomMargin := mBottom\<rparr>, ?g)"
    unfolding genHeadStyle_def using assms m by (simp add: Let_def)
  moreover have "0 \<le> nHead \<longrightarrow> anchor ?g \<and> anchorNames ?g = [handle c @ '':T'' @ format_04d nHead]"
    by simp
  moreover have "nHead < 0 \<longrightarrow> anchor ?g = anchor (charFmt st) \<and>
                           anchorNames ?g = anchorNames (charFmt st)"
    by simp
  moreover have "fontPointSize ?g = (case sHead st hType of None \<Rightarrow> 1 | Some s \<Rightarrow> s)"
    by simp
  ultimately show ?thesis unfolding m by (metis fst_conv snd_conv)
qed

lemma convertBlock_result:
  assumes "styles c = Some st"
  shows "\<exists>u ct doc.
           convertBlock c (tType, nHead, tText, tFormat, tStyle) =
             Inr (c\<lparr>usedNotes := u, cTitle := ct, document := doc\<rparr>) \<and>
           (\<exists>ks. map fst u = map fst (usedNotes c) @ ks) \<and>
           blockFormat (current doc) =
             (if tType \<in> set L_HEADINGS
              then (blockStyle st tType tStyle)
                     \<lparr>topMargin := fst (case mHead st tType of None \<Rightarrow> (0, 0) | Some m \<Rightarrow> m),
                      bottomMargin := snd (case mHead st tType of None \<Rightarrow> (0, 0) | Some m \<Rightarrow> m)\<rparr>
              else blockStyle st tType tStyle)"
proof -
  let ?b = "blockStyle st tType tStyle"
  have keep: "\<exists>ks. map fst (usedNotes c) = map fst (usedNotes c) @ ks" by simp
  consider (inline) "tType \<in> {TEXT, COMMENT, KEYWORD}" | (heading) "tType \<in> set L_HEADINGS"
    | (separator) "tType = SEP" | (skipped) "tType = SKIP"
    by (cases tType) (simp_all add: L_HEADINGS_def)
  then show ?thesis
  proof cases
    case inline
    then have nh: "tType \<notin> set L_HEADINGS" by (auto simp: L_HEADINGS_def)
    let ?c1 = "c\<lparr>document := newBlock (document c) ?b\<rparr>"
    have "styles ?c1 = Some st" using assms by simp
    from insertFragments_result [OF this, of tText tFormat "charFmt st"] obtain u rs where
      r: "insertFragments ?c1 tText tFormat (charFmt st) =
            Inr (?c1\<lparr>usedNotes := u, document := insertRuns (document ?c1) rs\<rparr>)"
      and k: "\<exists>ks. map fst u = map fst (usedNotes ?c1) @ ks" by blast
    have "convertBlock c (tType, nHead, tText, tFormat, tStyle) =
            Inr (c\<lparr>usedNotes := u, cTitle := cTitle c,
                   document := insertRuns (newBlock (document c) ?b) rs\<rparr>)"
      using assms inline r by (simp add: Let_def)
    with k nh show ?thesis
      by (intro exI [of _ u] exI [of _ "cTitle c"]
          exI [of _ "insertRuns (newBlock (document c) ?b) rs"]) simp
  next
    case heading
    then have nt: "tType \<notin> {TEXT, COMMENT, KEYWORD}" by (rule heading_not_text)
    from genHeadStyle_result [OF assms, of tType nHead ?b] obtain ct cFmt where
      g: "genHeadStyle c tType nHead ?b =
            Inr (c\<lparr>cTitle := ct\<rparr>,
                 ?b\<lparr>topMargin := fst (case mHead st tType of None \<Rightarrow> (0, 0) | Some m \<Rightarrow> m),
                     bottomMargin := snd (case mHead st tType of None \<Rightarrow> (0, 0) | Some m \<Rightarrow> m)\<rparr>,
                 cFmt)" by blast
    let ?h = "?b\<lparr>topMargin := fst (case mHead st tType of None \<Rightarrow> (0, 0) | Some m \<Rightarrow> m),
                  bottomMargin := snd (case mHead st tType of None \<Rightarrow> (0, 0) | Some m \<Rightarrow> m)\<rparr>"
    let ?doc = "insertText (newBlock (document c) ?h) (str_replace tText (BR (constants c)) [CHR 0x0A]) cFmt"
    have "convertBlock c (tType, nHead, tText, tFormat, tStyle) =
            Inr (c\<lparr>usedNotes := usedNotes c, cTitle := ct, document := ?doc\<rparr>)"
      using assms heading nt g by (simp add: Let_def)
    with keep heading show ?thesis
      by (intro exI [of _ "usedNotes c"] exI [of _ ct] exI [of _ ?doc]) simp
  next
    case separator
    let ?doc = "insertText (newBlock (document c) ?b) tText (charFmt st)"
    have "convertBlock c (tType, nHead, tText, tFormat, tStyle) =
            Inr (c\<lparr>usedNotes := usedNotes c, cTitle := cTitle c, document := ?doc\<rparr>)"
      using assms separator by (simp add: Let_def L_HEADINGS_def)
    with keep separator show ?thesis
      by (intro exI [of _ "usedNotes c"] exI [of _ "cTitle c"] exI [of _ ?doc])
        (simp add: L_HEADINGS_def)
  next
    case skipped
    let ?doc = "insertText (newBlock (document c) ?b) (U_NBSP (constants c)) (charFmt st)"
    have "convertBlock c (tType, nHead, tText, tFormat, tStyle) =
            Inr (c\<lparr>usedNotes := usedNotes c, cTitle := cTitle c, document := ?doc\<rparr>)"
      using assms skipped by (simp add: Let_def L_HEADINGS_def)
    with keep skipped show ?thesis
      by (intro exI [of _ "usedNotes c"] exI [of _ "cTitle c"] exI [of _ ?doc])
        (simp add: L_HEADINGS_def)
  qed
qed

lemma styleFlags_margins:
  "topMargin (styleFlags st flags b) = (if Z_TOPMRG \<in> flags then 0 else topMargin b)"
  "bottomMargin (styleFlags st flags b) = (if Z_BTMMRG \<in> flags then 0 else bottomMargin b)"
  by (simp_all add: styleFlags_def Let_def)



section \<open>The loop over the used notes\<close>

lemma noteParagraphs_frame [simp]:
  "noteParagraphs (c\<lparr>document := d\<rparr>) = noteParagraphs c"
  "noteParagraphs (c\<lparr>cTitle := ct\<rparr>) = noteParagraphs c"
  by (simp_all add: noteParagraphs_def fun_eq_iff split: option.splits)

lemma position_insertText [simp]: "position (insertText doc s f) = position doc + length s"
  by (simp add: position_def insertText_def block_length_def)


lemma position_insertRuns: "position doc \<le> position (insertRuns doc rs)"
  by (simp add: position_def insertRuns_def block_length_def)






section \<open>Footnote indices on repeated reference\<close>

text \<open>
  C1. The indices are to follow the order of first reference, and a second reference to
  a key is to reuse the index the key has. The branch of the footnote reference gives
  every reference to a stored key the index \<open>len(usedNotes) + 1\<close> and stores it under
  the key, whether the key is in the registry or not. On the sample block, which refers
  to \<open>n1\<close>, to \<open>n1\<close> again and then to \<open>n2\<close>, the markers are [1], [2] and [2], and the
  registry ends with index 2 for both keys: the second reference to \<open>n1\<close> does not reuse
  index 1, and two notes share an index.
\<close>

theorem repeated_reference_renumbered:
  "map_sum id texts (doConvert (sample_converter [sample_note_block])) =
     Inr [[''x'', ''[1]'', ''y'', ''[2]'', ''z'', ''[2]'', '''']] \<and>
   map_sum id usedNotes (doConvert (sample_converter [sample_note_block])) =
     Inr [(''n1'', 2), (''n2'', 2)]"
  by (simp add: sample_converter_def sample_note_block_def construct_defs convert_defs document_defs
      slice_defs texts_def str_nat.simps digit_char_def)

section \<open>The runs of a text block\<close>

text \<open>
  C2. For every text, span list and base format, on a converter whose style attributes
  exist, the Inline Fragment Applier succeeds and appends to the paragraph, for each span
  in order, the slice of the text from the cursor before the span to the offset of the
  span in the running format before the span, followed by one marker run when the span
  is a footnote reference and by nothing otherwise, and at the end what is left of the
  text in the format after all spans. In particular, for every project, the text block
  "Hello [world]" with bold-begin at 6 and bold-end at 11 gives one paragraph of three
  runs: "Hello " in the base format, "[worl" in bold, "d]" in the base format.
\<close>

theorem insertFragments_slices:
  assumes "styles c = Some st"
  shows "(\<exists>u marks.
            insertFragments c text tFmt dFmt =
              Inr (c\<lparr>usedNotes := u,
                     document := insertRuns (document c)
                       (concat (map (\<lambda>i. sliceRun c (str_replace text [CHR 0x0A] (U_LSEP (constants c)))
                                            dFmt 0 tFmt i # marks ! i)
                                  [0..<length tFmt])
                        @ [lastRun c (str_replace text [CHR 0x0A] (U_LSEP (constants c))) dFmt 0 tFmt])\<rparr>) \<and>
            length marks = length tFmt \<and>
            (\<forall>i<length tFmt. length (marks ! i) = (if fst (snd (tFmt ! i)) = FNOTE then 1 else 0))) \<and>
         map_sum id rendered
             (doConvert (initDocument (ToQTextDocument_init (tok\<lparr>blocks := [sample_text_block]\<rparr>)))) =
           Inr [[(''Hello '', base_charFmt (theme tok)),
                 (''[worl'', (base_charFmt (theme tok))\<lparr>fontWeight := Bold\<rparr>),
                 (''d]'', base_charFmt (theme tok))]]"
proof
  from insertSpans_general [OF assms] show "\<exists>u marks.
            insertFragments c text tFmt dFmt =
              Inr (c\<lparr>usedNotes := u,
                     document := insertRuns (document c)
                       (concat (map (\<lambda>i. sliceRun c (str_replace text [CHR 0x0A] (U_LSEP (constants c)))
                                            dFmt 0 tFmt i # marks ! i)
                                  [0..<length tFmt])
                        @ [lastRun c (str_replace text [CHR 0x0A] (U_LSEP (constants c))) dFmt 0 tFmt])\<rparr>) \<and>
            length marks = length tFmt \<and>
            (\<forall>i<length tFmt. length (marks ! i) = (if fst (snd (tFmt ! i)) = FNOTE then 1 else 0))"
    unfolding insertFragments_def by blast
  show "map_sum id rendered
             (doConvert (initDocument (ToQTextDocument_init (tok\<lparr>blocks := [sample_text_block]\<rparr>)))) =
           Inr [[(''Hello '', base_charFmt (theme tok)),
                 (''[worl'', (base_charFmt (theme tok))\<lparr>fontWeight := Bold\<rparr>),
                 (''d]'', base_charFmt (theme tok))]]"
    by (simp add: sample_text_block_def ToQTextDocument_init_def Tokenizer.defs ToQTextDocument.defs
        convert_defs document_defs slice_defs rendered_def base_charFmt_def new_QTextCharFormat_def)
qed

theorem insertFragments_slices_witness:
  "styles (sample_converter []) = Some (the (styles (sample_converter []))) \<and>
   (\<exists>u marks.
      insertFragments (sample_converter []) ''Hello [world]'' [(6, B_B, []), (11, FNOTE, ''n1'')]
          new_QTextCharFormat =
        Inr ((sample_converter [])\<lparr>usedNotes := u,
               document := insertRuns (document (sample_converter []))
                 (concat (map (\<lambda>i. sliceRun (sample_converter [])
                                      (str_replace ''Hello [world]'' [CHR 0x0A]
                                         (U_LSEP (constants (sample_converter []))))
                                      new_QTextCharFormat 0 [(6, B_B, []), (11, FNOTE, ''n1'')] i
                                    # marks ! i)
                            [0..<length [(6, B_B, []), (11 :: int, FNOTE, ''n1'')]])
                  @ [lastRun (sample_converter [])
                       (str_replace ''Hello [world]'' [CHR 0x0A] (U_LSEP (constants (sample_converter []))))
                       new_QTextCharFormat 0 [(6, B_B, []), (11, FNOTE, ''n1'')]])\<rparr>) \<and>
      length marks = length [(6, B_B, []), (11 :: int, FNOTE, ''n1'')] \<and>
      length (marks ! 0) = 0 \<and> length (marks ! 1) = 1)"
proof -
  let ?spans = "[(6, B_B, []), (11 :: int, FNOTE, ''n1'')]"
  from insertFragments_slices [OF sample_styles, of "[]" "''Hello [world]''" ?spans new_QTextCharFormat]
  obtain u marks where
    r: "insertFragments (sample_converter []) ''Hello [world]'' ?spans new_QTextCharFormat =
        Inr ((sample_converter [])\<lparr>usedNotes := u,
               document := insertRuns (document (sample_converter []))
                 (concat (map (\<lambda>i. sliceRun (sample_converter [])
                                      (str_replace ''Hello [world]'' [CHR 0x0A]
                                         (U_LSEP (constants (sample_converter []))))
                                      new_QTextCharFormat 0 ?spans i
                                    # marks ! i)
                            [0..<length ?spans])
                  @ [lastRun (sample_converter [])
                       (str_replace ''Hello [world]'' [CHR 0x0A] (U_LSEP (constants (sample_converter []))))
                       new_QTextCharFormat 0 ?spans])\<rparr>)"
    and l: "length marks = length ?spans"
    and e: "\<forall>i<length ?spans. length (marks ! i) = (if fst (snd (?spans ! i)) = FNOTE then 1 else 0)"
    by blast
  from e have "length (marks ! 0) = 0" and "length (marks ! 1) = 1" by simp_all
  with r l sample_styles [of "[]"] show ?thesis by blast
qed

text \<open>The runs of that block are not "Hello ", "world" and "]".\<close>

theorem hello_world_counterexample:
  "map_sum id texts (doConvert (sample_converter [sample_text_block])) \<noteq>
     Inr [[''Hello '', ''world'', '']'']]"
  by (simp add: sample_converter_def sample_text_block_def construct_defs convert_defs document_defs
      slice_defs texts_def)

section \<open>The footnote section\<close>




section \<open>Zero margins\<close>

text \<open>
  C4. On a converter whose style attributes exist, a block with style flags is converted
  without error. When the block is not a heading, the top margin of its paragraph is
  zero if the zero-top-margin flag is set and the bottom margin is zero if the
  zero-bottom-margin flag is set. When the block is a heading, both margins are the
  ones of the heading table for its type (zero when the table has no entry), whatever
  the flags are: \<open>_genHeadStyle\<close> sets them after the flags were applied.
\<close>

theorem zero_margin_flags:
  assumes "styles c = Some st"
  shows "\<exists>c'. convertBlock c (tType, nHead, tText, tFormat, Some flags) = Inr c' \<and>
           (tType \<notin> set L_HEADINGS \<longrightarrow>
              (Z_TOPMRG \<in> flags \<longrightarrow> topMargin (blockFormat (current (document c'))) = 0) \<and>
              (Z_BTMMRG \<in> flags \<longrightarrow> bottomMargin (blockFormat (current (document c'))) = 0)) \<and>
           (tType \<in> set L_HEADINGS \<longrightarrow>
              topMargin (blockFormat (current (document c'))) =
                fst (case mHead st tType of None \<Rightarrow> (0, 0) | Some m \<Rightarrow> m) \<and>
              bottomMargin (blockFormat (current (document c'))) =
                snd (case mHead st tType of None \<Rightarrow> (0, 0) | Some m \<Rightarrow> m))"
proof -
  from convertBlock_result [OF assms, of tType nHead tText tFormat "Some flags"]
  obtain u ct doc where
    r: "convertBlock c (tType, nHead, tText, tFormat, Some flags) =
          Inr (c\<lparr>usedNotes := u, cTitle := ct, document := doc\<rparr>)"
    and f: "blockFormat (current doc) =
             (if tType \<in> set L_HEADINGS
              then (blockStyle st tType (Some flags))
                     \<lparr>topMargin := fst (case mHead st tType of None \<Rightarrow> (0, 0) | Some m \<Rightarrow> m),
                      bottomMargin := snd (case mHead st tType of None \<Rightarrow> (0, 0) | Some m \<Rightarrow> m)\<rparr>
              else blockStyle st tType (Some flags))"
    by blast
  show ?thesis
    unfolding r using f
    by (intro exI [of _ "c\<lparr>usedNotes := u, cTitle := ct, document := doc\<rparr>"])
      (simp add: blockStyle_def styleFlags_margins)
qed

theorem zero_margin_flags_witness:
  "styles (sample_converter []) = Some (the (styles (sample_converter []))) \<and>
   (\<exists>c'. convertBlock (sample_converter []) (TEXT, - 1, ''Hello'', [], Some {Z_TOPMRG, Z_BTMMRG}) = Inr c' \<and>
         topMargin (blockFormat (current (document c'))) = 0 \<and>
         bottomMargin (blockFormat (current (document c'))) = 0)"
proof -
  have t: "TEXT \<notin> set L_HEADINGS" by (simp add: L_HEADINGS_def)
  from zero_margin_flags [OF sample_styles, of "[]" TEXT "- 1" "''Hello''" "[]" "{Z_TOPMRG, Z_BTMMRG}"]
  show ?thesis using sample_styles [of "[]"] t by simp
qed

text \<open>
  A first-level heading with both zero-margin flags keeps the margins of the heading
  table, 20 and 10 on the sample project.
\<close>

theorem heading_margin_counterexample:
  "map_sum id margins (doConvert (sample_converter [sample_heading_block])) = Inr [(20, 10)] \<and>
   map_sum id margins (doConvert (sample_converter [sample_heading_block])) \<noteq> Inr [(0, 0)]"
  by (simp add: sample_converter_def sample_heading_block_def construct_defs convert_defs document_defs
      slice_defs margins_def styleFlags_def)

section \<open>The lifetime of the registry of used notes\<close>




section \<open>A reference to a footnote that is not stored\<close>

text \<open>
  C6. On a converter whose style attributes exist, the Inline Fragment Applier ends
  without error on every span list, and its output is the output before it followed,
  for each span in order, by the slice before the span in the running format and by the
  marker run of the span when it is a footnote reference, and at the end by what is
  left of the text. For a footnote reference whose key is not in the footnote store
  the marker run is "[ERR]" in the running format at that span; the running format
  after the span is the one before it, and when no reference of the list has a stored
  key the registry of used notes is left as it was. In particular the branch of such a
  reference changes nothing but the document, into which it inserts "[ERR]", and a
  span list that starts with such a reference and has no other reference gives the
  slice before it, "[ERR]" in the same format, and then the runs of the rest from the
  offset of the reference in the same format.
\<close>

theorem dangling_footnote:
  assumes "styles c = Some st"
  shows "(data \<notin> dom (footnotes c) \<longrightarrow>
            insertFootnote c cFmt data =
              Inr (c\<lparr>document := insertText (document c) ''[ERR]'' cFmt\<rparr>) \<and>
            (plainSpans rest \<longrightarrow>
               insertSpans c temp cFmt start ((pos, FNOTE, data) # rest) =
                 Inr (c\<lparr>document := insertRuns (document c)
                        ((py_slice temp start pos, cFmt) # (''[ERR]'', cFmt)
                         # fragmentRuns c temp cFmt pos rest)\<rparr>))) \<and>
         (\<exists>u marks.
            insertSpans c temp cFmt start tFmt =
              Inr (c\<lparr>usedNotes := u,
                     document := insertRuns (document c)
                       (concat (map (\<lambda>i. sliceRun c temp cFmt start tFmt i # marks ! i)
                                  [0..<length tFmt])
                        @ [lastRun c temp cFmt start tFmt])\<rparr>) \<and>
            length marks = length tFmt \<and>
            (\<forall>i<length tFmt. length (marks ! i) = (if fst (snd (tFmt ! i)) = FNOTE then 1 else 0)) \<and>
            (\<forall>i<length tFmt.
               fst (snd (tFmt ! i)) = FNOTE \<longrightarrow> snd (snd (tFmt ! i)) \<notin> dom (footnotes c) \<longrightarrow>
               marks ! i = [(''[ERR]'', runningFormat c cFmt (take i tFmt))]) \<and>
            ((\<forall>i<length tFmt.
                fst (snd (tFmt ! i)) = FNOTE \<longrightarrow> snd (snd (tFmt ! i)) \<notin> dom (footnotes c)) \<longrightarrow>
             u = usedNotes c))"
proof (intro conjI impI)
  assume d: "data \<notin> dom (footnotes c)"
  show "insertFootnote c cFmt data = Inr (c\<lparr>document := insertText (document c) ''[ERR]'' cFmt\<rparr>)"
    using assms d by (simp add: insertFootnote_def)
  show "insertSpans c temp cFmt start ((pos, FNOTE, data) # rest) =
          Inr (c\<lparr>document := insertRuns (document c)
                 ((py_slice temp start pos, cFmt) # (''[ERR]'', cFmt)
                  # fragmentRuns c temp cFmt pos rest)\<rparr>)"
    if "plainSpans rest"
    using assms d
    by (simp add: Let_def insertFootnote_def insertSpans_plain [OF that] insertText_insertRuns)
next
  from insertSpans_general [OF assms, of temp cFmt start tFmt]
  show "\<exists>u marks.
            insertSpans c temp cFmt start tFmt =
              Inr (c\<lparr>usedNotes := u,
                     document := insertRuns (document c)
                       (concat (map (\<lambda>i. sliceRun c temp cFmt start tFmt i # marks ! i)
                                  [0..<length tFmt])
                        @ [lastRun c temp cFmt start tFmt])\<rparr>) \<and>
            length marks = length tFmt \<and>
            (\<forall>i<length tFmt. length (marks ! i) = (if fst (snd (tFmt ! i)) = FNOTE then 1 else 0)) \<and>
            (\<forall>i<length tFmt.
               fst (snd (tFmt ! i)) = FNOTE \<longrightarrow> snd (snd (tFmt ! i)) \<notin> dom (footnotes c) \<longrightarrow>
               marks ! i = [(''[ERR]'', runningFormat c cFmt (take i tFmt))]) \<and>
            ((\<forall>i<length tFmt.
                fst (snd (tFmt ! i)) = FNOTE \<longrightarrow> snd (snd (tFmt ! i)) \<notin> dom (footnotes c)) \<longrightarrow>
             u = usedNotes c)"
    by blast
qed

text \<open>
  On the sample project, which stores no note \<open>n9\<close>: the text "ab" with a reference to
  \<open>n9\<close> at offset 1 gives the runs "a", "[ERR]", "b" in the base format and leaves the
  registry empty; and in "abc" with bold-begin at 1 and the reference at 2 the marker
  is bold, as the slice after it.
\<close>

theorem dangling_footnote_witness:
  "styles (sample_converter []) = Some (the (styles (sample_converter []))) \<and>
   ''n9'' \<notin> dom (footnotes (sample_converter [])) \<and>
   insertFootnote (sample_converter []) new_QTextCharFormat ''n9'' =
     Inr ((sample_converter [])\<lparr>document :=
            insertText (document (sample_converter [])) ''[ERR]'' new_QTextCharFormat\<rparr>) \<and>
   insertSpans (sample_converter []) ''ab'' new_QTextCharFormat 0 [(1, FNOTE, ''n9'')] =
     Inr ((sample_converter [])\<lparr>document := insertRuns (document (sample_converter []))
            [(''a'', new_QTextCharFormat), (''[ERR]'', new_QTextCharFormat),
             (''b'', new_QTextCharFormat)]\<rparr>) \<and>
   insertSpans (sample_converter []) ''abc'' new_QTextCharFormat 0 [(1, B_B, []), (2, FNOTE, ''n9'')] =
     Inr ((sample_converter [])\<lparr>document := insertRuns (document (sample_converter []))
            [(''a'', new_QTextCharFormat),
             (''b'', new_QTextCharFormat\<lparr>fontWeight := Bold\<rparr>),
             (''[ERR]'', new_QTextCharFormat\<lparr>fontWeight := Bold\<rparr>),
             (''c'', new_QTextCharFormat\<lparr>fontWeight := Bold\<rparr>)]\<rparr>)"
proof -
  let ?S = "sample_converter []"
  let ?f = "new_QTextCharFormat"
  let ?spans = "[(1, B_B, []), (2 :: int, FNOTE, ''n9'')]"
  have s: "styles ?S = Some (the (styles ?S))" by (rule sample_styles)
  have d: "''n9'' \<notin> dom (footnotes ?S)"
    by (simp add: sample_converter_def initDocument_def Let_def construct_defs)
  have b: "bold ?S = Bold"
    by (simp add: sample_converter_def initDocument_def Let_def construct_defs)
  have p: "plainSpans []" by (simp add: plainSpans_def)
  note first = dangling_footnote [OF s, where data = "''n9''" and cFmt = ?f and rest = "[]"
      and temp = "''ab''" and start = 0 and pos = 1, THEN conjunct1]
  from first d p have one:
    "insertFootnote ?S ?f ''n9'' = Inr (?S\<lparr>document := insertText (document ?S) ''[ERR]'' ?f\<rparr>)"
    and two: "insertSpans ?S ''ab'' ?f 0 [(1, FNOTE, ''n9'')] =
      Inr (?S\<lparr>document := insertRuns (document ?S)
             ((py_slice ''ab'' 0 1, ?f) # (''[ERR]'', ?f) # fragmentRuns ?S ''ab'' ?f 1 [])\<rparr>)"
    by blast+
  from two have two': "insertSpans ?S ''ab'' ?f 0 [(1, FNOTE, ''n9'')] =
      Inr (?S\<lparr>document := insertRuns (document ?S) [(''a'', ?f), (''[ERR]'', ?f), (''b'', ?f)]\<rparr>)"
    by (simp add: fragmentRuns_Nil slice_defs)
  from dangling_footnote [OF s, where temp = "''abc''" and cFmt = ?f and start = 0 and tFmt = ?spans,
      THEN conjunct2]
  obtain u marks where
    r: "insertSpans ?S ''abc'' ?f 0 ?spans =
          Inr (?S\<lparr>usedNotes := u,
                 document := insertRuns (document ?S)
                   (concat (map (\<lambda>i. sliceRun ?S ''abc'' ?f 0 ?spans i # marks ! i) [0..<length ?spans])
                    @ [lastRun ?S ''abc'' ?f 0 ?spans])\<rparr>)"
    and l: "\<forall>i<length ?spans. length (marks ! i) = (if fst (snd (?spans ! i)) = FNOTE then 1 else 0)"
    and e: "\<forall>i<length ?spans.
               fst (snd (?spans ! i)) = FNOTE \<longrightarrow> snd (snd (?spans ! i)) \<notin> dom (footnotes ?S) \<longrightarrow>
               marks ! i = [(''[ERR]'', runningFormat ?S ?f (take i ?spans))]"
    and k: "(\<forall>i<length ?spans.
                fst (snd (?spans ! i)) = FNOTE \<longrightarrow> snd (snd (?spans ! i)) \<notin> dom (footnotes ?S)) \<longrightarrow>
             u = usedNotes ?S"
    by blast
  from l have m0: "marks ! 0 = []" by (simp add: All_less_Suc2)
  from e d have m1: "marks ! Suc 0 = [(''[ERR]'', ?f\<lparr>fontWeight := Bold\<rparr>)]"
    by (simp add: All_less_Suc2 runningFormat_def b)
  from k d have u: "u = usedNotes ?S" by (simp add: All_less_Suc2 numeral_2_eq_2)
  have three: "insertSpans ?S ''abc'' ?f 0 ?spans =
     Inr (?S\<lparr>document := insertRuns (document ?S)
            [(''a'', ?f), (''b'', ?f\<lparr>fontWeight := Bold\<rparr>),
             (''[ERR]'', ?f\<lparr>fontWeight := Bold\<rparr>), (''c'', ?f\<lparr>fontWeight := Bold\<rparr>)]\<rparr>)"
    unfolding r u
    by (simp add: m0 m1 numeral_2_eq_2 sliceRun_def lastRun_def runningFormat_def b slice_defs)
  from s d one two' three show ?thesis by blast
qed

section \<open>The anchor of a heading\<close>

text \<open>
  C7. On an initialised converter, a heading block is converted without error and its
  text is inserted in one run. When the ordinal is not negative, the format of that run
  is an anchor whose only name is the handle of the document, ":T" and the decimal
  digits of the ordinal, filled with zeros on the left to four characters. When the
  ordinal is negative, as -1, the format is no anchor and has no anchor name.
\<close>

theorem heading_anchor:
  assumes "initialised c" and "tType \<in> set L_HEADINGS"
  shows "\<exists>c1 hFmt cFmt.
           convertBlock c (tType, nHead, tText, tFormat, tStyle) =
             Inr (c1\<lparr>document := insertText (newBlock (document c) hFmt)
                                    (str_replace tText (BR (constants c)) [CHR 0x0A]) cFmt\<rparr>) \<and>
           (0 \<le> nHead \<longrightarrow>
              anchor cFmt \<and>
              anchorNames cFmt =
                [handle c @ '':T'' @ replicate (4 - length (str_nat (nat nHead))) CHR ''0''
                   @ str_nat (nat nHead)]) \<and>
           (nHead < 0 \<longrightarrow> \<not> anchor cFmt \<and> anchorNames cFmt = [])"
proof -
  from initialised_styles [OF assms(1)] obtain st where
    st: "styles c = Some st" and base: "charFmt st = base_charFmt (theme c)" by blast
  from genHeadStyle_result [OF st, of tType nHead "blockStyle st tType tStyle"]
  obtain ct hFmt cFmt where
    g: "genHeadStyle c tType nHead (blockStyle st tType tStyle) = Inr (c\<lparr>cTitle := ct\<rparr>, hFmt, cFmt)"
    and pos: "0 \<le> nHead \<longrightarrow> anchor cFmt \<and> anchorNames cFmt = [handle c @ '':T'' @ format_04d nHead]"
    and neg: "nHead < 0 \<longrightarrow> anchor cFmt = anchor (charFmt st) \<and>
                             anchorNames cFmt = anchorNames (charFmt st)"
    by blast
  have run: "convertBlock c (tType, nHead, tText, tFormat, tStyle) =
          Inr (c\<lparr>cTitle := ct, document := insertText (newBlock (document c) hFmt)
                                 (str_replace tText (BR (constants c)) [CHR 0x0A]) cFmt\<rparr>)"
    using st g heading_not_text [OF assms(2)] assms(2) by (simp add: Let_def)
  have pad: "0 \<le> nHead \<Longrightarrow> format_04d nHead =
      replicate (4 - length (str_nat (nat nHead))) CHR ''0'' @ str_nat (nat nHead)"
    by (simp add: format_04d_def Let_def)
  have plain: "\<not> anchor (charFmt st) \<and> anchorNames (charFmt st) = []"
    by (simp add: base base_charFmt_def new_QTextCharFormat_def)
  show ?thesis
  proof (intro exI [of _ "c\<lparr>cTitle := ct\<rparr>"] exI [of _ hFmt] exI [of _ cFmt] conjI)
    show "convertBlock c (tType, nHead, tText, tFormat, tStyle) =
            Inr (c\<lparr>cTitle := ct\<rparr>\<lparr>document := insertText (newBlock (document c) hFmt)
                                    (str_replace tText (BR (constants c)) [CHR 0x0A]) cFmt\<rparr>)"
      using run by simp
    show "0 \<le> nHead \<longrightarrow>
              anchor cFmt \<and>
              anchorNames cFmt =
                [handle c @ '':T'' @ replicate (4 - length (str_nat (nat nHead))) CHR ''0''
                   @ str_nat (nat nHead)]"
      using pos pad by simp
    show "nHead < 0 \<longrightarrow> \<not> anchor cFmt \<and> anchorNames cFmt = []"
      using neg plain by simp
  qed
qed

theorem heading_anchor_witness:
  "initialised (sample_converter []) \<and> HEAD2 \<in> set L_HEADINGS \<and>
   (\<exists>c1 hFmt cFmt.
      convertBlock (sample_converter []) (HEAD2, 7, ''Scene'', [], None) =
        Inr (c1\<lparr>document := insertText (newBlock (document (sample_converter [])) hFmt)
                               (str_replace ''Scene'' (BR (constants (sample_converter []))) [CHR 0x0A])
                               cFmt\<rparr>) \<and>
      anchor cFmt \<and> anchorNames cFmt = [''0000000000001:T0007''])"
proof -
  have h: "HEAD2 \<in> set L_HEADINGS" by (simp add: L_HEADINGS_def)
  have n: "handle (sample_converter []) = ''0000000000001''"
    by (simp add: sample_converter_def initDocument_def Let_def construct_defs)
  have d: "str_nat 7 = ''7''" by (simp add: str_nat.simps digit_char_def)
  from heading_anchor [OF sample_initialised h, of "[]" 7 "''Scene''" "[]" None]
  obtain c1 hFmt cFmt where
    r: "convertBlock (sample_converter []) (HEAD2, 7, ''Scene'', [], None) =
        Inr (c1\<lparr>document := insertText (newBlock (document (sample_converter [])) hFmt)
                               (str_replace ''Scene'' (BR (constants (sample_converter []))) [CHR 0x0A])
                               cFmt\<rparr>)"
    and a: "(0 :: int) \<le> 7 \<longrightarrow>
              anchor cFmt \<and>
              anchorNames cFmt =
                [handle (sample_converter []) @ '':T'' @ replicate (4 - length (str_nat (nat 7))) CHR ''0''
                   @ str_nat (nat 7)]"
    by blast
  have z: "replicate 3 CHR ''0'' = ''000''" by (simp add: numeral_3_eq_3)
  from a have "anchor cFmt \<and> anchorNames cFmt = [''0000000000001:T0007'']"
    by (simp add: n d z)
  with r sample_initialised [of "[]"] h show ?thesis by blast
qed

section \<open>A colour class that is not known\<close>

text \<open>
  C8. A colour-begin span whose class is not in the table of classes inserts the slice
  before it and leaves the running format as it is; a colour-end span inserts the slice
  before it and sets the foreground to the text colour of the theme, whatever the format
  was. So a text with an unknown colour-begin and a colour-end after it is rendered
  without error in three runs, the first two in the format before the spans and the
  third with the foreground of the theme's text colour.
\<close>

theorem unknown_color_class:
  assumes "classes c data = None"
  shows "insertSpans c temp cFmt start ((pos, COL_B, data) # rest) =
           insertSpans (c\<lparr>document := insertText (document c) (py_slice temp start pos) cFmt\<rparr>)
             temp cFmt pos rest \<and>
         insertSpans c temp cFmt start ((pos, COL_E, data') # rest) =
           insertSpans (c\<lparr>document := insertText (document c) (py_slice temp start pos) cFmt\<rparr>)
             temp (cFmt\<lparr>foreground := Brush (theme_text (theme c))\<rparr>) pos rest \<and>
         insertSpans c temp cFmt start [(pos, COL_B, data), (pos', COL_E, data')] =
           Inr (c\<lparr>document := insertRuns (document c)
                  [(py_slice temp start pos, cFmt),
                   (py_slice temp pos pos', cFmt),
                   (py_slice_from temp pos', cFmt\<lparr>foreground := Brush (theme_text (theme c))\<rparr>)]\<rparr>)"
  using assms by (simp add: Let_def insertText_insertRuns)

theorem unknown_color_class_witness:
  "classes (sample_converter []) ''nothing'' = None \<and>
   insertSpans (sample_converter []) ''abc'' new_QTextCharFormat 0
       [(1, COL_B, ''nothing''), (2, COL_E, [])] =
     Inr ((sample_converter [])\<lparr>document := insertRuns (document (sample_converter []))
            [(''a'', new_QTextCharFormat),
             (''b'', new_QTextCharFormat),
             (''c'', new_QTextCharFormat\<lparr>foreground := Brush (QColor 0 0 0)\<rparr>)]\<rparr>)"
proof -
  have h: "classes (sample_converter []) ''nothing'' = None"
    by (simp add: sample_converter_def initDocument_def Let_def construct_defs)
  have t: "theme_text (theme (sample_converter [])) = QColor 0 0 0"
    by (simp add: sample_converter_def initDocument_def Let_def construct_defs)
  from unknown_color_class [OF h, where temp = "''abc''" and cFmt = new_QTextCharFormat
      and start = 0 and pos = 1 and pos' = 2 and data' = "[]"] h
  show ?thesis by (simp add: t slice_defs)
qed

section \<open>The empty block sequence\<close>

text \<open>
  C9. On a converter whose block sequence is empty, initialisation followed by the
  conversion pass leaves a document of one paragraph without any run. The footnote pass
  after it changes nothing when the registry of used notes is empty, as it is on a
  converter that has just been constructed.
\<close>

theorem convert_empty:
  assumes "blocks c = []"
  shows "doConvert (initDocument c) = Inr (initDocument c) \<and>
         paragraphs (document (initDocument c)) = [\<lparr>blockFormat = new_QTextBlockFormat, runs = []\<rparr>] \<and>
         (usedNotes c = [] \<longrightarrow> appendFootnotes (initDocument c) = Inr (initDocument c)) \<and>
         usedNotes (ToQTextDocument_init tok) = []"
  using assms
  by (simp add: doConvert_def appendFootnotes_def paragraphs_def new_QTextDocument_def
      ToQTextDocument_init_def Tokenizer.defs ToQTextDocument.defs)

theorem convert_empty_witness:
  "blocks (ToQTextDocument_init (sample_tokenizer [])) = [] \<and>
   usedNotes (ToQTextDocument_init (sample_tokenizer [])) = [] \<and>
   doConvert (sample_converter []) = Inr (sample_converter []) \<and>
   paragraphs (document (sample_converter [])) = [\<lparr>blockFormat = new_QTextBlockFormat, runs = []\<rparr>] \<and>
   appendFootnotes (sample_converter []) = Inr (sample_converter [])"
proof -
  have b: "blocks (ToQTextDocument_init (sample_tokenizer [])) = []"
    by (simp add: construct_defs)
  from convert_empty [OF b, of "sample_tokenizer []"] b
  show ?thesis by (simp add: sample_converter_def)
qed

text \<open>
  The registry outlives initialisation: after a pass that referred to the note \<open>n1\<close>,
  initialising the same instance again and converting the empty block sequence is
  followed by a footnote section for that note.
\<close>

theorem convert_empty_counterexample:
  "map_sum id texts
     (reconvertEmpty (sample_converter [(TEXT, - 1, ''x'', [(1, FNOTE, ''n1'')], None)])) =
     Inr [[''Footnotes''], [''1. '', ''See note'']]"
  by (simp add: reconvertEmpty_def sample_converter_def construct_defs convert_defs document_defs
      slice_defs texts_def appendFootnotes_def appendNote_def str_nat.simps digit_char_def)

section \<open>The conversion pass before initialisation\<close>

text \<open>
  C10. A conversion pass on a converter whose \<open>_init\<close> flag is not set returns without
  an error and leaves the converter, with its document, as it was.
\<close>

theorem doConvert_before_init: "\<not> init c \<Longrightarrow> doConvert c = Inr c"
  by (simp add: doConvert_def)

theorem doConvert_before_init_witness:
  "\<not> init (ToQTextDocument_init (sample_tokenizer [sample_text_block])) \<and>
   doConvert (ToQTextDocument_init (sample_tokenizer [sample_text_block])) =
     Inr (ToQTextDocument_init (sample_tokenizer [sample_text_block]))"
proof -
  have h: "\<not> init (ToQTextDocument_init (sample_tokenizer [sample_text_block]))"
    by (simp add: construct_defs)
  show ?thesis using h doConvert_before_init [OF h] by simp
qed

end
